theory Spec2Isabelle
  imports Main
begin

section \<open>Outbound client pool (outbound/client\_pool.js)\<close>

text \<open>
  The module keeps one generic-pool instance per destination in \<open>server.notes.pool\<close>
  and decorates transport sockets with bookkeeping properties. The embedding below keeps
  the module's own code as HOL functions over explicit state:
  \<^item> a socket is a record of the decorated properties, the registered listeners and
    the sequence of transport calls made on it;
  \<^item> the process-wide state (\<open>server.notes.pool\<close>, the logger, the counter
    \<open>socket_idx\<close>) is a record that every operation takes and returns;
  \<^item> calls into the generic-pool library and invocations of caller callbacks are
    recorded in that state, in order; what the library does to this module's state
    inside such a call (it runs the factory's \<open>destroy\<close> and \<open>create\<close>, and
    hands a released socket to a waiting acquirer) is part of the operation.
\<close>

subsection \<open>JavaScript values\<close>


definition falsy_str :: "string option \<Rightarrow> bool" where
  "falsy_str v = (case v of None \<Rightarrow> True | Some t \<Rightarrow> t = [])"

definition or_num :: "int option \<Rightarrow> int \<Rightarrow> int" where
  "or_num v d = (case v of None \<Rightarrow> d | Some n \<Rightarrow> if n = 0 then d else n)"

definition or_str :: "string option \<Rightarrow> string \<Rightarrow> string" where
  "or_str v d = (case v of None \<Rightarrow> d | Some t \<Rightarrow> if t = [] then d else t)"

text \<open>Decimal rendering of numbers inside template strings.\<close>

definition digit_char :: "nat \<Rightarrow> char" where
  "digit_char d = char_of (48 + d)"

fun show_nat_aux :: "nat \<Rightarrow> nat \<Rightarrow> string \<Rightarrow> string" where
  "show_nat_aux 0 n acc = acc"
| "show_nat_aux (Suc fuel) n acc =
     (if n < 10 then digit_char n # acc
      else show_nat_aux fuel (n div 10) (digit_char (n mod 10) # acc))"

definition show_nat :: "nat \<Rightarrow> string" where
  "show_nat n = show_nat_aux (Suc n) n []"

definition show_int :: "int \<Rightarrow> string" where
  "show_int i = (if i < 0 then CHR ''-'' # show_nat (nat (- i)) else show_nat (nat i))"

definition tmpl_num :: "int option \<Rightarrow> string" where
  "tmpl_num v = (case v of None \<Rightarrow> ''undefined'' | Some n \<Rightarrow> show_int n)"

definition tmpl_str :: "string option \<Rightarrow> string" where
  "tmpl_str v = (case v of None \<Rightarrow> ''undefined'' | Some t \<Rightarrow> t)"


text \<open>
  \<open>socket.__pool_name\<close> is a pool's name or \<open>null\<close> (the bypass path passes
  \<open>null\<close>). Used as a property key, \<open>null\<close> is the string \<open>null\<close>.
\<close>

definition key_of :: "string option \<Rightarrow> string" where
  "key_of nm = (case nm of None \<Rightarrow> ''null'' | Some t \<Rightarrow> t)"

subsection \<open>Data model\<close>

datatype evname = EvConnect | EvError | EvTimeout | EvLine | EvEnd | EvClose

datatype event =
    Ev_connect | Ev_error string | Ev_timeout | Ev_line string | Ev_end | Ev_close

fun name_of :: "event \<Rightarrow> evname" where
  "name_of Ev_connect = EvConnect"
| "name_of (Ev_error e) = EvError"
| "name_of Ev_timeout = EvTimeout"
| "name_of (Ev_line l) = EvLine"
| "name_of Ev_end = EvEnd"
| "name_of Ev_close = EvClose"

text \<open>
  The continuation handed to \<open>_create_socket\<close>: the caller's callback on the bypass
  path, the pool's \<open>done\<close> when the pool's \<open>create\<close> runs.
\<close>

datatype callback = Cb_caller | Cb_pool_done string

text \<open>
  The listeners this module installs, one constructor per function expression of the
  source with the variables it closes over, and \<open>H_other\<close> for listeners installed
  by the code that holds an acquired socket.
\<close>

datatype handler =
    H_connect callback
  | H_connect_error callback
  | H_connect_timeout callback "string option" "int option"
  | H_destroy_line
  | H_destroy_error
  | H_destroy_end
  | H_pool_error "string option"
  | H_pool_end "string option"
  | H_other nat

text \<open>Calls made on the transport, in order.\<close>

datatype sock_op = SetTimeout int | Write string | End | Destroy

datatype conn_opts =
    Unix_path "string option"
  | Tcp "int option" "string option" "string option"

record socket =
  pool_name :: "string option"
  sock_idx :: nat
  acquired :: bool
  fromPool :: bool
  writable :: bool
  listeners :: "(evname \<times> bool \<times> handler) list"
  ops :: "sock_op list"
  opts :: conn_opts

datatype level = LOGPROTOCOL | LOGDEBUG | LOGINFO | LOGWARN | LOGCRIT

text \<open>
  A pool object: the factory options \<open>get_pool\<close> passes to \<open>generic_pool.Pool\<close>
  (with the variables its closures capture) and the one piece of the library's state this
  module reads, the length of the queue of waiting acquirers.
\<close>

record pool =
  pname :: string
  pport :: int
  phost :: string
  plocal_addr :: "string option"
  pis_unix_socket :: bool
  pmax :: int
  idleTimeoutMillis :: int
  waitingClients :: nat

datatype pool_call =
    Pool_acquire string
  | Pool_release string nat
  | Pool_destroy string nat

record config =
  connect_timeout :: int
  pool_timeout :: int
  pool_concurrency_max :: "int option"

text \<open>
  \<open>notes_pool\<close> is \<open>server.notes.pool\<close>: absent until the first pool is made, then
  a table from pool names to pools. \<open>cb_calls\<close> lists the invocations of callbacks as
  (callback, error argument, socket argument), \<open>None\<close> for \<open>null\<close>.
  \<open>connecting\<close> holds the sockets a pool has made through its \<open>create\<close> for
  acquirers that are still waiting. The lines the library itself writes through the
  \<open>log\<close> option of the pool are not part of \<open>log\<close>.
\<close>

record world =
  notes_pool :: "(string \<rightharpoonup> pool) option"
  socket_idx :: nat
  log :: "(level \<times> string) list"
  pool_calls :: "pool_call list"
  cb_calls :: "(callback \<times> string option \<times> nat option) list"
  connecting :: "socket list"

definition logmsg :: "level \<Rightarrow> string \<Rightarrow> world \<Rightarrow> world" where
  "logmsg lv m w = w\<lparr>log := log w @ [(lv, m)]\<rparr>"

definition invoke :: "callback \<Rightarrow> string option \<Rightarrow> nat option \<Rightarrow> world \<Rightarrow> world" where
  "invoke cb err so w = w\<lparr>cb_calls := cb_calls w @ [(cb, err, so)]\<rparr>"

subsection \<open>Transport and event emitter\<close>

definition sock_connect :: "conn_opts \<Rightarrow> socket" where
  "sock_connect co = \<lparr>pool_name = None, sock_idx = 0, acquired = False, fromPool = False,
     writable = True, listeners = [], ops = [], opts = co\<rparr>"

definition do_op :: "sock_op \<Rightarrow> socket \<Rightarrow> socket" where
  "do_op c s = s\<lparr>ops := ops s @ [c]\<rparr>"

definition on :: "evname \<Rightarrow> handler \<Rightarrow> socket \<Rightarrow> socket" where
  "on n h s = s\<lparr>listeners := listeners s @ [(n, False, h)]\<rparr>"

definition once :: "evname \<Rightarrow> handler \<Rightarrow> socket \<Rightarrow> socket" where
  "once n h s = s\<lparr>listeners := listeners s @ [(n, True, h)]\<rparr>"

definition removeAllListeners :: "socket \<Rightarrow> socket" where
  "removeAllListeners s = s\<lparr>listeners := []\<rparr>"

definition removeAllListeners_of :: "evname \<Rightarrow> socket \<Rightarrow> socket" where
  "removeAllListeners_of n s = s\<lparr>listeners := filter (\<lambda>l. fst l \<noteq> n) (listeners s)\<rparr>"

text \<open>
  \<open>emit\<close> follows the event emitter: the listeners registered for the event when it is
  emitted run in registration order; a \<open>once\<close> listener is unregistered before it runs.
  The handlers are defined below, so \<open>emit\<close> takes the function that runs one.
\<close>

definition emit ::
  "(handler \<Rightarrow> event \<Rightarrow> world \<times> socket \<Rightarrow> world \<times> socket) \<Rightarrow> event \<Rightarrow>
     world \<times> socket \<Rightarrow> world \<times> socket" where
  "emit run ev st =
     (let w = fst st; s = snd st;
          hs = filter (\<lambda>l. fst l = name_of ev) (listeners s);
          s' = s\<lparr>listeners := filter (\<lambda>l. \<not> (fst l = name_of ev \<and> fst (snd l))) (listeners s)\<rparr>
      in fold (\<lambda>l. run (snd (snd l)) ev) hs (w, s'))"

subsection \<open>Connection factory\<close>

definition create_socket ::
  "config \<Rightarrow> string option \<Rightarrow> int option \<Rightarrow> string option \<Rightarrow> string option \<Rightarrow> bool \<Rightarrow>
     callback \<Rightarrow> world \<Rightarrow> world \<times> socket" where
  "create_socket cfg pool_nm port host local_addr is_unix_socket cb w =
     (let s0 = (if is_unix_socket then sock_connect (Unix_path host)
                else sock_connect (Tcp port host local_addr));
          idx = Suc (socket_idx w);
          s1 = s0\<lparr>pool_name := pool_nm, sock_idx := idx\<rparr>;
          s2 = do_op (SetTimeout (connect_timeout cfg * 1000)) s1;
          w1 = logmsg LOGDEBUG ''[outbound] created'' (w\<lparr>socket_idx := idx\<rparr>);
          s3 = once EvConnect (H_connect cb) s2;
          s4 = once EvError (H_connect_error cb) s3;
          s5 = once EvTimeout (H_connect_timeout cb host port) s4
      in (w1, s5))"

subsection \<open>The pool's factory: validate and destroy\<close>

definition validate :: "socket \<Rightarrow> bool" where
  "validate s = (fromPool s \<and> writable s)"

text \<open>
  \<open>destroy\<close> is the \<open>destroy\<close> option of the pool made by \<open>get_pool\<close>; it closes over
  that pool's \<open>host\<close> and \<open>port\<close>.
\<close>

definition quit_cmd :: string where
  "quit_cmd = [CHR ''Q'', CHR ''U'', CHR ''I'', CHR ''T'', CHR 0x0D, CHR 0x0A]"

definition destroy :: "pool \<Rightarrow> world \<times> socket \<Rightarrow> world \<times> socket" where
  "destroy p st =
     (let w = fst st; s = snd st;
          w1 = logmsg LOGDEBUG (''[outbound] destroying pool entry '' @ show_nat (sock_idx s)
                 @ '' for '' @ phost p @ '':'' @ show_int (pport p)) w;
          s1 = removeAllListeners s;
          s2 = s1\<lparr>fromPool := False\<rparr>;
          s3 = on EvLine H_destroy_line s2;
          s4 = once EvError H_destroy_error s3;
          s5 = once EvEnd H_destroy_end s4
      in if writable s5
         then (logmsg LOGPROTOCOL ''[outbound] C: QUIT'' w1,
               do_op End (do_op (Write quit_cmd) s5))
         else (w1, do_op End s5))"

text \<open>
  The library's \<open>pool.destroy(obj)\<close> takes the object out of the pool's bookkeeping and
  runs the factory's \<open>destroy\<close> on it, synchronously. The call is recorded and the
  factory function is run.
\<close>

definition pool_destroy :: "pool \<Rightarrow> world \<times> socket \<Rightarrow> world \<times> socket" where
  "pool_destroy p st =
     (let w = fst st; s = snd st
      in destroy p (w\<lparr>pool_calls := pool_calls w @ [Pool_destroy (pname p) (sock_idx s)]\<rparr>, s))"

subsection \<open>Registry\<close>

definition mk_name :: "int \<Rightarrow> string \<Rightarrow> string option \<Rightarrow> int \<Rightarrow> string" where
  "mk_name port host local_addr tmo =
     ''outbound::'' @ show_int port @ '':'' @ host @ '':'' @ tmpl_str local_addr @ '':''
       @ show_int tmo"

definition get_pool ::
  "config \<Rightarrow> int option \<Rightarrow> string option \<Rightarrow> string option \<Rightarrow> bool \<Rightarrow> int option \<Rightarrow>
     world \<Rightarrow> pool \<times> world" where
  "get_pool cfg port0 host0 local_addr is_unix_socket mx w =
     (let port = or_num port0 25;
          host = or_str host0 ''localhost'';
          nm = mk_name port host local_addr (pool_timeout cfg);
          reg = (case notes_pool w of None \<Rightarrow> Map.empty | Some r \<Rightarrow> r)
      in case reg nm of
           Some p \<Rightarrow> (p, w\<lparr>notes_pool := Some reg\<rparr>)
         | None \<Rightarrow>
             (let p = \<lparr>pname = nm, pport = port, phost = host, plocal_addr = local_addr,
                       pis_unix_socket = is_unix_socket, pmax = or_num mx 10,
                       idleTimeoutMillis = pool_timeout cfg * 1000, waitingClients = 0\<rparr>
              in (p, w\<lparr>notes_pool := Some (reg(nm \<mapsto> p))\<rparr>)))"

text \<open>The \<open>create\<close> option of the pool: \<open>this.name\<close> and the captured destination.\<close>

definition pool_create :: "config \<Rightarrow> pool \<Rightarrow> world \<Rightarrow> world \<times> socket" where
  "pool_create cfg p w =
     create_socket cfg (Some (pname p)) (Some (pport p)) (Some (phost p)) (plocal_addr p)
       (pis_unix_socket p) (Cb_pool_done (pname p)) w"

subsection \<open>Public operations\<close>

text \<open>\<open>a >= b\<close> where \<open>b\<close> may be \<open>undefined\<close>: the comparison is then false.\<close>

definition js_ge :: "nat \<Rightarrow> int option \<Rightarrow> bool" where
  "js_ge n v = (case v of None \<Rightarrow> False | Some m \<Rightarrow> m \<le> int n)"

text \<open>
  \<open>get_client\<close> returns the socket it created on the bypass path; on the pooled path
  the socket, if any, arrives later through the callback given to \<open>pool.acquire\<close>
  (\<open>acquire_cb\<close> below).
\<close>

definition get_client ::
  "config \<Rightarrow> int option \<Rightarrow> string option \<Rightarrow> string option \<Rightarrow> bool \<Rightarrow> world \<Rightarrow>
     world \<times> socket option" where
  "get_client cfg port host local_addr is_unix_socket w =
     (if pool_concurrency_max cfg = Some 0
      then (let r = create_socket cfg None port host local_addr is_unix_socket Cb_caller w
            in (fst r, Some (snd r)))
      else (let r = get_pool cfg port host local_addr is_unix_socket (pool_concurrency_max cfg) w;
                p = fst r; w1 = snd r
            in if js_ge (waitingClients p) (pool_concurrency_max cfg)
               then (invoke Cb_caller (Some ''Too many waiting clients for pool'') None w1, None)
               else (w1\<lparr>pool_calls := pool_calls w1 @ [Pool_acquire (pname p)]\<rparr>, None)))"

definition acquire_cb :: "string option \<Rightarrow> world \<times> socket \<Rightarrow> world \<times> socket" where
  "acquire_cb err st =
     (let w = fst st; s = snd st
      in if \<not> falsy_str err then (invoke Cb_caller err None w, s)
         else (let s1 = s\<lparr>acquired := True\<rparr>;
                   w1 = logmsg LOGINFO (''[outbound] acquired socket '' @ show_nat (sock_idx s1)
                          @ '' for '' @ key_of (pool_name s1)) w
               in (invoke Cb_caller None (Some (sock_idx s1)) w1, s1)))"

text \<open>\<open>sockend\<close> is local to \<open>release_client\<close> and closes over \<open>socket\<close> and \<open>name\<close>.\<close>

definition sockend :: "string option \<Rightarrow> world \<times> socket \<Rightarrow> world \<times> socket" where
  "sockend nm st =
     (let w = fst st; s = (snd st)\<lparr>fromPool := False\<rparr>
      in case notes_pool w of
           None \<Rightarrow> (w, do_op Destroy (removeAllListeners s))
         | Some reg \<Rightarrow>
             (case reg (key_of nm) of
                None \<Rightarrow> (w, do_op Destroy (removeAllListeners s))
              | Some p \<Rightarrow> pool_destroy p (w, s)))"

text \<open>
  The library's \<open>pool.release(obj)\<close> puts the object back among the available ones and
  dispenses. With no acquirer waiting the object stays available. With an acquirer waiting
  (the library then holds no other available object) the object is validated with the
  factory's \<open>validate\<close>: a valid object is handed to the first waiting acquirer at
  once, through the callback \<open>get_client\<close> gave to \<open>pool.acquire\<close>, and that
  acquirer leaves the queue; an invalid one is destroyed with \<open>pool.destroy\<close> and the
  pool makes a new object for the acquirer with the factory's \<open>create\<close>. All of this
  happens inside the call.
\<close>

definition dequeue_waiter :: "string option \<Rightarrow> pool \<Rightarrow> world \<Rightarrow> world" where
  "dequeue_waiter nm p w =
     w\<lparr>notes_pool :=
         map_option (\<lambda>reg. reg(key_of nm \<mapsto> p\<lparr>waitingClients := waitingClients p - 1\<rparr>))
           (notes_pool w)\<rparr>"

definition dispense ::
  "config \<Rightarrow> string option \<Rightarrow> pool \<Rightarrow> world \<times> socket \<Rightarrow> world \<times> socket" where
  "dispense cfg nm p st =
     (if validate (snd st) then acquire_cb None (dequeue_waiter nm p (fst st), snd st)
      else (let r = pool_destroy p st;
                c = pool_create cfg p (fst r)
            in ((fst c)\<lparr>connecting := connecting (fst c) @ [snd c]\<rparr>, snd r)))"

definition pool_release ::
  "config \<Rightarrow> string option \<Rightarrow> pool \<Rightarrow> world \<times> socket \<Rightarrow> world \<times> socket" where
  "pool_release cfg nm p st =
     (let s = snd st;
          w = (fst st)\<lparr>pool_calls := pool_calls (fst st) @ [Pool_release (pname p) (sock_idx s)]\<rparr>
      in if waitingClients p = 0 then (w, s) else dispense cfg nm p (w, s))"

definition release_log :: "socket \<Rightarrow> int option \<Rightarrow> string option \<Rightarrow> string option \<Rightarrow> string" where
  "release_log s port host local_addr =
     ''[outbound] release_client: '' @ show_nat (sock_idx s) @ '' '' @ tmpl_str host @ '':''
       @ tmpl_num port @ '' to '' @ tmpl_str local_addr"

definition crit_msg :: "string option \<Rightarrow> string" where
  "crit_msg nm = ''[outbound] Releasing a pool ('' @ key_of nm @ '') that doesn't exist!''"

definition release_client ::
  "config \<Rightarrow> int option \<Rightarrow> string option \<Rightarrow> string option \<Rightarrow> bool \<Rightarrow> world \<times> socket \<Rightarrow>
     world \<times> socket" where
  "release_client cfg port host local_addr error st =
     (let s = snd st;
          w = logmsg LOGDEBUG (release_log s port host local_addr) (fst st);
          nm = pool_name s
      in if falsy_str nm \<and> pool_concurrency_max cfg = Some 0 then sockend nm (w, s)
         else if \<not> acquired s
         then (logmsg LOGWARN ''Release an un-acquired socket. Stack: '' w, s)
         else (let s1 = s\<lparr>acquired := False\<rparr>
               in case notes_pool w of
                    None \<Rightarrow> (logmsg LOGCRIT (crit_msg nm) w, s1)
                  | Some reg \<Rightarrow>
                      (case reg (key_of nm) of
                         None \<Rightarrow> (logmsg LOGCRIT (crit_msg nm) w, s1)
                       | Some p \<Rightarrow>
                           if error then sockend nm (w, s1)
                           else if pool_timeout cfg = 0
                           then sockend nm
                                  (logmsg LOGINFO
                                     ''[outbound] Pool_timeout is zero - shutting it down'' w, s1)
                           else (let s2 = removeAllListeners_of EvClose s1;
                                     s3 = removeAllListeners_of EvError s2;
                                     s4 = removeAllListeners_of EvEnd s3;
                                     s5 = removeAllListeners_of EvTimeout s4;
                                     s6 = removeAllListeners_of EvLine s5;
                                     s7 = s6\<lparr>fromPool := True\<rparr>;
                                     s8 = once EvError (H_pool_error nm) s7;
                                     s9 = once EvEnd (H_pool_end nm) s8
                                 in pool_release cfg nm p (w, s9)))))"

subsection \<open>Listeners\<close>

definition payload :: "event \<Rightarrow> string" where
  "payload ev = (case ev of Ev_error e \<Rightarrow> e | Ev_line l \<Rightarrow> l | _ \<Rightarrow> ''undefined'')"

fun run_handler :: "handler \<Rightarrow> event \<Rightarrow> world \<times> socket \<Rightarrow> world \<times> socket" where
  "run_handler (H_connect cb) ev (w, s) =
     (let s1 = removeAllListeners_of EvTimeout (removeAllListeners_of EvError s)
      in (invoke cb None (Some (sock_idx s1)) w, s1))"
| "run_handler (H_connect_error cb) ev (w, s) =
     (let s1 = do_op End s
      in (invoke cb (Some (''Outbound connection error: '' @ payload ev)) None w, s1))"
| "run_handler (H_connect_timeout cb host port) ev (w, s) =
     (let s1 = do_op End s
      in (invoke cb (Some (''Outbound connection timed out to '' @ tmpl_str host @ '':''
                      @ tmpl_num port)) None w, s1))"
| "run_handler H_destroy_line ev (w, s) =
     (logmsg LOGPROTOCOL (''[outbound] S: '' @ payload ev) w, s)"
| "run_handler H_destroy_error ev (w, s) =
     (logmsg LOGWARN (''[outbound] Socket got an error while shutting down: '' @ payload ev) w, s)"
| "run_handler H_destroy_end ev (w, s) =
     (logmsg LOGINFO ''[outbound] Remote end half closed during destroy()'' w, do_op Destroy s)"
| "run_handler (H_pool_error nm) ev (w, s) =
     sockend nm (logmsg LOGWARN (''[outbound] Socket ['' @ key_of nm
                   @ ''] in pool got an error: '' @ payload ev) w, s)"
| "run_handler (H_pool_end nm) ev (w, s) =
     sockend nm (logmsg LOGINFO (''[outbound] Socket ['' @ key_of nm @ ''] in pool got FIN'') w,
                 s\<lparr>writable := False\<rparr>)"
| "run_handler (H_other k) ev (w, s) = (w, s)"

text \<open>The transport emitting one event, and a sequence of events, on a socket.\<close>

definition signal :: "event \<Rightarrow> world \<times> socket \<Rightarrow> world \<times> socket" where
  "signal ev st = emit run_handler ev st"

definition signals :: "event list \<Rightarrow> world \<times> socket \<Rightarrow> world \<times> socket" where
  "signals evs st = fold signal evs st"

subsection \<open>States used to state and instantiate the properties\<close>

text \<open>
  A table entry as \<open>get_pool\<close> makes it: stored under the name built from the pool's own
  destination and idle timeout, with a port and a host that are not falsy.
\<close>

definition made_by_get_pool :: "string \<Rightarrow> pool \<Rightarrow> bool" where
  "made_by_get_pool k p =
     (k = mk_name (pport p) (phost p) (plocal_addr p) (idleTimeoutMillis p div 1000)
      \<and> pname p = k \<and> pport p \<noteq> 0 \<and> phost p \<noteq> [])"

definition registry_ok :: "world \<Rightarrow> bool" where
  "registry_ok w =
     (case notes_pool w of None \<Rightarrow> True
      | Some reg \<Rightarrow> (\<forall>k p. reg k = Some p \<longrightarrow> made_by_get_pool k p))"


text \<open>The pool a socket names is in the table.\<close>

definition pool_of :: "world \<Rightarrow> socket \<Rightarrow> pool option" where
  "pool_of w s = (case notes_pool w of None \<Rightarrow> None | Some reg \<Rightarrow> reg (key_of (pool_name s)))"

text \<open>The bypass test at the head of \<open>release_client\<close>.\<close>

definition bypassed :: "config \<Rightarrow> socket \<Rightarrow> bool" where
  "bypassed cfg s = (falsy_str (pool_name s) \<and> pool_concurrency_max cfg = Some 0)"

text \<open>
  The socket as \<open>release_client\<close> passes it to \<open>pool.release\<close> (lines 146 to 163
  applied to a socket whose acquired flag has been cleared).
\<close>

definition idle_socket :: "socket \<Rightarrow> socket" where
  "idle_socket s =
     s\<lparr>acquired := False, fromPool := True,
       listeners := filter (\<lambda>l. fst l \<notin> {EvClose, EvError, EvEnd, EvTimeout, EvLine})
                      (listeners s)
                    @ [(EvError, True, H_pool_error (pool_name s)),
                       (EvEnd, True, H_pool_end (pool_name s))]\<rparr>"


text \<open>Concrete configurations, a table with one pool, and a socket acquired from it.\<close>

definition cfg_pooled :: config where
  "cfg_pooled = \<lparr>connect_timeout = 30, pool_timeout = 300, pool_concurrency_max = Some 1\<rparr>"

definition cfg_bypass :: config where
  "cfg_bypass = \<lparr>connect_timeout = 30, pool_timeout = 300, pool_concurrency_max = Some 0\<rparr>"

definition cfg_no_idle :: config where
  "cfg_no_idle = \<lparr>connect_timeout = 30, pool_timeout = 0, pool_concurrency_max = Some 10\<rparr>"

definition w_empty :: world where
  "w_empty = \<lparr>notes_pool = None, socket_idx = 0, log = [], pool_calls = [], cb_calls = [],
     connecting = []\<rparr>"

definition ex_name :: string where
  "ex_name = ''outbound::25:localhost:undefined:300''"

definition ex_pool :: pool where
  "ex_pool = \<lparr>pname = ex_name, pport = 25, phost = ''localhost'', plocal_addr = None,
     pis_unix_socket = False, pmax = 1, idleTimeoutMillis = 300000, waitingClients = 1\<rparr>"

definition w_one_pool :: world where
  "w_one_pool = \<lparr>notes_pool = Some [ex_name \<mapsto> ex_pool], socket_idx = 1, log = [],
     pool_calls = [], cb_calls = [], connecting = []\<rparr>"

definition w_no_pools :: world where
  "w_no_pools = \<lparr>notes_pool = Some Map.empty, socket_idx = 1, log = [], pool_calls = [],
     cb_calls = [], connecting = []\<rparr>"

definition ex_sock :: socket where
  "ex_sock = \<lparr>pool_name = Some ex_name, sock_idx = 1, acquired = True, fromPool = False,
     writable = True, listeners = [(EvLine, False, H_other 0)], ops = [SetTimeout 30000],
     opts = Tcp (Some 25) (Some ''localhost'') None\<rparr>"





text \<open>A socket made on the bypass path, connected and in use.\<close>

definition ex_bypass_sock :: socket where
  "ex_bypass_sock = \<lparr>pool_name = None, sock_idx = 2, acquired = False, fromPool = False,
     writable = True, listeners = [(EvLine, False, H_other 0)], ops = [SetTimeout 30000],
     opts = Tcp (Some 25) (Some ''localhost'') None\<rparr>"

text \<open>
  What can happen to a socket after it has been handed to the teardown: the transport emits
  events or changes its writable flag, some caller releases it again under any
  configuration, a pool destroys it again, or a pool that holds it as available dispenses
  it to an acquirer.
\<close>

datatype step =
    Signal event
  | Set_writable bool
  | Release config "int option" "string option" "string option" bool
  | Teardown pool
  | Dispense config pool



definition teardown_listeners :: "(evname \<times> bool \<times> handler) list" where
  "teardown_listeners = [(EvLine, False, H_destroy_line), (EvError, True, H_destroy_error),
     (EvEnd, True, H_destroy_end)]"

text \<open>The listeners of a socket in teardown, before or after an error was signalled.\<close>

definition half_closed :: "socket \<Rightarrow> bool" where
  "half_closed s =
     (listeners s = teardown_listeners
      \<or> listeners s = [(EvLine, False, H_destroy_line), (EvEnd, True, H_destroy_end)])"


section \<open>Properties\<close>

subsection \<open>Basic facts about the transport helpers\<close>

lemma do_op_fields [simp]:
  "ops (do_op c s) = ops s @ [c]" "listeners (do_op c s) = listeners s"
  "fromPool (do_op c s) = fromPool s" "acquired (do_op c s) = acquired s"
  "writable (do_op c s) = writable s" "pool_name (do_op c s) = pool_name s"
  "sock_idx (do_op c s) = sock_idx s" "opts (do_op c s) = opts s"
  by (simp_all add: do_op_def)

lemma on_fields [simp]:
  "ops (on n h s) = ops s" "listeners (on n h s) = listeners s @ [(n, False, h)]"
  "fromPool (on n h s) = fromPool s" "acquired (on n h s) = acquired s"
  "writable (on n h s) = writable s" "pool_name (on n h s) = pool_name s"
  "sock_idx (on n h s) = sock_idx s" "opts (on n h s) = opts s"
  by (simp_all add: on_def)


lemma removeAllListeners_fields [simp]:
  "ops (removeAllListeners s) = ops s" "listeners (removeAllListeners s) = []"
  "fromPool (removeAllListeners s) = fromPool s" "acquired (removeAllListeners s) = acquired s"
  "writable (removeAllListeners s) = writable s" "pool_name (removeAllListeners s) = pool_name s"
  "sock_idx (removeAllListeners s) = sock_idx s" "opts (removeAllListeners s) = opts s"
  by (simp_all add: removeAllListeners_def)


lemma logmsg_fields [simp]:
  "notes_pool (logmsg lv m w) = notes_pool w" "socket_idx (logmsg lv m w) = socket_idx w"
  "log (logmsg lv m w) = log w @ [(lv, m)]" "pool_calls (logmsg lv m w) = pool_calls w"
  "cb_calls (logmsg lv m w) = cb_calls w" "connecting (logmsg lv m w) = connecting w"
  by (simp_all add: logmsg_def)

lemma invoke_fields [simp]:
  "notes_pool (invoke cb e so w) = notes_pool w" "socket_idx (invoke cb e so w) = socket_idx w"
  "log (invoke cb e so w) = log w" "pool_calls (invoke cb e so w) = pool_calls w"
  "cb_calls (invoke cb e so w) = cb_calls w @ [(cb, e, so)]"
  "connecting (invoke cb e so w) = connecting w"
  by (simp_all add: invoke_def)

subsection \<open>Teardown\<close>

lemma destroy_socket:
  "snd (destroy p (w, s)) =
     s\<lparr>listeners := [(EvLine, False, H_destroy_line), (EvError, True, H_destroy_error),
                      (EvEnd, True, H_destroy_end)],
       fromPool := False,
       ops := ops s @ (if writable s then [Write quit_cmd, End] else [End])\<rparr>"
  by (simp add: destroy_def Let_def do_op_def on_def once_def removeAllListeners_def)

lemma destroy_world:
  "notes_pool (fst (destroy p (w, s))) = notes_pool w"
  "pool_calls (fst (destroy p (w, s))) = pool_calls w"
  "cb_calls (fst (destroy p (w, s))) = cb_calls w"
  "socket_idx (fst (destroy p (w, s))) = socket_idx w"
  by (simp_all add: destroy_def Let_def)

text \<open>
  C5. Whenever the pool's \<open>destroy\<close> runs on a socket, the transport calls it adds are
  the write of the literal \<open>QUIT\<close> line followed by \<open>end\<close> if the socket was writable
  when it started, and \<open>end\<close> alone if it was not: the command is written exactly when
  the socket is writable, and the half-close always comes last.
\<close>

theorem destroy_quit_iff_writable:
  "ops (snd (destroy p (w, s))) =
     ops s @ (if writable s then [Write quit_cmd, End] else [End])
   \<and> (Write quit_cmd \<in> set (drop (length (ops s)) (ops (snd (destroy p (w, s)))))
        \<longleftrightarrow> writable s)
   \<and> last (ops (snd (destroy p (w, s)))) = End"
  by (simp add: destroy_socket)

subsection \<open>Admission\<close>

lemma ex_name_eq: "mk_name 25 ''localhost'' None 300 = ex_name"
  by code_simp

lemma get_pool_existing:
  assumes "notes_pool w = Some reg"
    and "reg (mk_name (or_num port 25) (or_str host ''localhost'') la (pool_timeout cfg)) = Some p"
  shows "get_pool cfg port host la ux mx w = (p, w)"
  using assms by (simp add: get_pool_def Let_def)

text \<open>
  C2. In pooled mode (\<open>pool_concurrency_max\<close> is a number \<open>m\<close> other than 0), when the
  table holds the destination's pool and that pool has at least \<open>m\<close> waiting acquirers,
  \<open>get_client\<close> invokes the caller's callback with the error
  \<open>Too many waiting clients for pool\<close> and a null socket, and changes nothing else: the
  table, the socket counter, the log and the calls made to the pool library are as
  before, and no socket is created.
\<close>

theorem backpressure_rejects:
  assumes "pool_concurrency_max cfg = Some m" and "m \<noteq> 0"
    and "notes_pool w = Some reg"
    and "reg (mk_name (or_num port 25) (or_str host ''localhost'') la (pool_timeout cfg)) = Some p"
    and "m \<le> int (waitingClients p)"
  shows "get_client cfg port host la ux w =
           (w\<lparr>cb_calls := cb_calls w
                 @ [(Cb_caller, Some ''Too many waiting clients for pool'', None)]\<rparr>, None)"
  using assms by (simp add: get_client_def get_pool_existing Let_def js_ge_def invoke_def)

theorem backpressure_rejects_witness:
  "get_client cfg_pooled None None None False w_one_pool =
     (w_one_pool\<lparr>cb_calls := [(Cb_caller, Some ''Too many waiting clients for pool'', None)]\<rparr>,
      None)"
  using backpressure_rejects
          [of cfg_pooled 1 w_one_pool "[ex_name \<mapsto> ex_pool]" None None None ex_pool False]
  by (simp add: cfg_pooled_def w_one_pool_def or_num_def or_str_def ex_name_eq ex_pool_def)

subsection \<open>The branches of \<open>release_client\<close>\<close>

lemma sockend_absent:
  assumes "pool_of w (s\<lparr>pool_name := nm\<rparr>) = None"
  shows "sockend nm (w, s) = (w, s\<lparr>fromPool := False, listeners := [], ops := ops s @ [Destroy]\<rparr>)"
  using assms
  by (auto simp: sockend_def pool_of_def Let_def do_op_def removeAllListeners_def
           split: option.splits)

lemma sockend_present:
  assumes "pool_of w (s\<lparr>pool_name := nm\<rparr>) = Some p"
  shows "sockend nm (w, s) = pool_destroy p (w, s\<lparr>fromPool := False\<rparr>)"
  using assms by (auto simp: sockend_def pool_of_def Let_def split: option.splits)

lemma release_bypassed:
  assumes "bypassed cfg s"
  shows "release_client cfg port host la err (w, s) =
           sockend (pool_name s) (logmsg LOGDEBUG (release_log s port host la) w, s)"
  using assms by (simp add: release_client_def bypassed_def Let_def)


lemma release_absent:
  assumes "\<not> bypassed cfg s" and "acquired s" and "pool_of w s = None"
  shows "release_client cfg port host la err (w, s) =
           (logmsg LOGCRIT (crit_msg (pool_name s))
              (logmsg LOGDEBUG (release_log s port host la) w), s\<lparr>acquired := False\<rparr>)"
  using assms
  by (auto simp: release_client_def bypassed_def pool_of_def Let_def split: option.splits)

lemma release_teardown:
  assumes "\<not> bypassed cfg s" and "acquired s" and "pool_of w s = Some p"
    and "err \<or> pool_timeout cfg = 0"
  shows "release_client cfg port host la err (w, s) =
           pool_destroy p
             ((if err then logmsg LOGDEBUG (release_log s port host la) w
               else logmsg LOGINFO ''[outbound] Pool_timeout is zero - shutting it down''
                      (logmsg LOGDEBUG (release_log s port host la) w)),
              s\<lparr>acquired := False, fromPool := False\<rparr>)"
  using assms
  by (auto simp: release_client_def bypassed_def pool_of_def Let_def sockend_def
           split: option.splits)



lemma pool_destroy_socket:
  "snd (pool_destroy p (w, s)) = snd (destroy p (w, s))"
  by (simp add: pool_destroy_def destroy_def Let_def)

lemma pool_destroy_world:
  "notes_pool (fst (pool_destroy p (w, s))) = notes_pool w"
  "pool_calls (fst (pool_destroy p (w, s))) = pool_calls w @ [Pool_destroy (pname p) (sock_idx s)]"
  "cb_calls (fst (pool_destroy p (w, s))) = cb_calls w"
  "socket_idx (fst (pool_destroy p (w, s))) = socket_idx w"
  by (simp_all add: pool_destroy_def destroy_def Let_def)



lemma pool_release_invalid:
  assumes "0 < waitingClients p" and "\<not> validate s"
  shows "snd (pool_release cfg nm p (w, s)) = snd (destroy p (w, s))"
  using assms by (simp add: pool_release_def dispense_def Let_def pool_destroy_socket destroy_socket)




lemma ex_sock_facts:
  "\<not> bypassed cfg ex_sock" "acquired ex_sock"
  "pool_of w_no_pools ex_sock = None" "pool_of w_one_pool ex_sock = Some ex_pool"
  by (simp_all add: bypassed_def ex_sock_def falsy_str_def ex_name_def pool_of_def
        w_no_pools_def w_one_pool_def key_of_def)

subsection \<open>Release when the pool has left the table\<close>

text \<open>
  C1, as the code has it. A release of an acquired socket that is not a bypass release,
  when the table holds no pool under the socket's pool name (or there is no table), logs
  the entry line at debug level and the anomaly at critical level, clears the acquired
  flag, and does nothing else: no call is made on the transport, the listeners stay, and
  no pool is called. The socket is left open. (A pool leaves the table when the callback
  that \<open>drain_pools\<close> gives to the pool's \<open>drain\<close> deletes its entry.)
\<close>

theorem release_missing_pool_logs_only:
  assumes "\<not> bypassed cfg s" and "acquired s" and "pool_of w s = None"
  shows "release_client cfg port host la err (w, s) =
           (logmsg LOGCRIT (crit_msg (pool_name s))
              (logmsg LOGDEBUG (release_log s port host la) w), s\<lparr>acquired := False\<rparr>)"
  using assms by (rule release_absent)

theorem release_missing_pool_logs_only_witness:
  "\<not> bypassed cfg_pooled ex_sock \<and> acquired ex_sock \<and> pool_of w_no_pools ex_sock = None
   \<and> release_client cfg_pooled None None None True (w_no_pools, ex_sock) =
       (logmsg LOGCRIT (crit_msg (Some ex_name))
          (logmsg LOGDEBUG (release_log ex_sock None None None) w_no_pools),
        ex_sock\<lparr>acquired := False\<rparr>)"
  using release_missing_pool_logs_only [of cfg_pooled ex_sock w_no_pools None None None True]
  by (simp add: ex_sock_facts) (simp add: ex_sock_def)

text \<open>
  C1 as stated fails: for an acquired socket whose pool is not in the table, the release
  logs at critical level but makes no call on the transport, neither \<open>end\<close> nor
  \<open>destroy\<close>.
\<close>

theorem release_missing_pool_counterexample:
  "acquired ex_sock \<and> pool_of w_no_pools ex_sock = None
   \<and> map fst (log (fst (release_client cfg_pooled None None None False (w_no_pools, ex_sock))))
       = [LOGDEBUG, LOGCRIT]
   \<and> ops (snd (release_client cfg_pooled None None None False (w_no_pools, ex_sock)))
       = [SetTimeout 30000]
   \<and> Destroy \<notin> set (ops (snd (release_client cfg_pooled None None None False (w_no_pools, ex_sock))))
   \<and> End \<notin> set (ops (snd (release_client cfg_pooled None None None False (w_no_pools, ex_sock))))"
  by (simp add: release_absent ex_sock_facts) (simp add: ex_sock_def w_no_pools_def)

subsection \<open>Release with a zero idle timeout\<close>

lemma signal_end_after_destroy:
  "ops (snd (signal Ev_end (w', snd (destroy p (w, s))))) = ops (snd (destroy p (w, s))) @ [Destroy]"
  by (simp add: signal_def emit_def destroy_socket Let_def)

lemma signal_half_closed:
  assumes "half_closed (snd st)" and "ev \<noteq> Ev_end"
  shows "ops (snd (signal ev st)) = ops (snd st) \<and> half_closed (snd (signal ev st))"
  using assms
  by (cases st; cases ev)
     (auto simp: signal_def emit_def Let_def teardown_listeners_def half_closed_def)

lemma signals_half_closed:
  assumes "half_closed (snd st)" and "Ev_end \<notin> set evs"
  shows "ops (snd (signals evs st)) = ops (snd st) \<and> half_closed (snd (signals evs st))"
  using assms unfolding signals_def
proof (induction evs arbitrary: st)
  case Nil
  then show ?case by simp
next
  case (Cons ev evs)
  then have "ev \<noteq> Ev_end" and "Ev_end \<notin> set evs" by auto
  with Cons.prems(1) signal_half_closed [of st ev] Cons.IH [of "signal ev st"]
  show ?case by simp
qed

lemma signal_end_half_closed:
  assumes "half_closed (snd st)"
  shows "ops (snd (signal Ev_end st)) = ops (snd st) @ [Destroy]"
  using assms
  by (cases st)
     (auto simp: signal_def emit_def Let_def teardown_listeners_def half_closed_def)

text \<open>
  C4, as the code has it. With \<open>pool_timeout\<close> 0, a release of an acquired socket whose
  pool is in the table, with or without the error flag, calls the pool's \<open>destroy\<close> on
  the socket and never its \<open>release\<close>: the teardown runs (the \<open>QUIT\<close> line if
  writable, then the half-close, with the teardown listeners installed and the
  pool-membership flag cleared). The release leaves the transport half-closed: whatever
  the transport signals before the peer's end of stream adds no call on it, and the
  teardown's listener destroys it when the peer's end of stream arrives.
\<close>

theorem release_zero_timeout_tears_down:
  assumes "pool_timeout cfg = 0" and "acquired s" and "pool_of w s = Some p"
  shows "pool_calls (fst (release_client cfg port host la err (w, s)))
           = pool_calls w @ [Pool_destroy (pname p) (sock_idx s)]
       \<and> ops (snd (release_client cfg port host la err (w, s)))
           = ops s @ (if writable s then [Write quit_cmd, End] else [End])
       \<and> listeners (snd (release_client cfg port host la err (w, s)))
           = [(EvLine, False, H_destroy_line), (EvError, True, H_destroy_error),
              (EvEnd, True, H_destroy_end)]
       \<and> \<not> fromPool (snd (release_client cfg port host la err (w, s)))
       \<and> ops (snd (signal Ev_end (release_client cfg port host la err (w, s))))
           = ops s @ (if writable s then [Write quit_cmd, End] else [End]) @ [Destroy]
       \<and> (Ev_end \<notin> set evs \<longrightarrow>
            ops (snd (signals evs (release_client cfg port host la err (w, s))))
              = ops s @ (if writable s then [Write quit_cmd, End] else [End])
          \<and> ops (snd (signals (evs @ [Ev_end]) (release_client cfg port host la err (w, s))))
              = ops s @ (if writable s then [Write quit_cmd, End] else [End]) @ [Destroy])"
proof -
  let ?r = "release_client cfg port host la err (w, s)"
  have "\<exists>w1 s1. ?r = pool_destroy p (w1, s1) \<and> pool_calls w1 = pool_calls w
          \<and> ops s1 = ops s \<and> writable s1 = writable s \<and> sock_idx s1 = sock_idx s"
  proof (cases "bypassed cfg s")
    case True
    have "pool_of (logmsg LOGDEBUG (release_log s port host la) w) (s\<lparr>pool_name := pool_name s\<rparr>)
            = Some p"
      using assms(3) by (simp add: pool_of_def)
    then show ?thesis
      using release_bypassed [OF True, of port host la err w]
      by (simp add: sockend_present) (rule exI, rule exI, rule conjI, rule refl, simp)
  next
    case False
    show ?thesis
      using release_teardown [OF False assms(2) assms(3), of err port host la] assms(1)
      by (cases err) (simp_all, (rule exI, rule exI, rule conjI, rule refl, simp)+)
  qed
  then obtain w1 s1 where r: "?r = pool_destroy p (w1, s1)"
    and w1: "pool_calls w1 = pool_calls w"
    and s1: "ops s1 = ops s" "writable s1 = writable s" "sock_idx s1 = sock_idx s"
    by blast
  have s: "snd ?r = snd (destroy p (w1, s1))"
    by (simp add: r pool_destroy_socket)
  have e: "?r = (fst ?r, snd (destroy p (w1, s1)))"
    using s by (metis prod.collapse)
  have "ops (snd (signal Ev_end ?r)) = ops (snd ?r) @ [Destroy]"
    by (subst e, subst signal_end_after_destroy) (simp add: s)
  moreover have "ops (snd (signals evs ?r)) = ops (snd ?r)
      \<and> ops (snd (signals (evs @ [Ev_end]) ?r)) = ops (snd ?r) @ [Destroy]"
    if "Ev_end \<notin> set evs"
  proof -
    have h: "half_closed (snd ?r)"
      by (simp add: s destroy_socket half_closed_def teardown_listeners_def)
    from signals_half_closed [OF h that] signal_end_half_closed [of "signals evs ?r"]
    show ?thesis by (simp add: signals_def)
  qed
  ultimately show ?thesis
    by (simp add: s destroy_socket s1) (simp add: r pool_destroy_world w1 s1)
qed

theorem release_zero_timeout_tears_down_witness:
  "pool_timeout cfg_no_idle = 0 \<and> acquired ex_sock
   \<and> pool_of w_one_pool ex_sock = Some ex_pool
   \<and> pool_calls (fst (release_client cfg_no_idle None None None False (w_one_pool, ex_sock)))
       = [Pool_destroy ex_name 1]
   \<and> ops (snd (release_client cfg_no_idle None None None False (w_one_pool, ex_sock)))
       = [SetTimeout 30000, Write quit_cmd, End]
   \<and> \<not> fromPool (snd (release_client cfg_no_idle None None None False (w_one_pool, ex_sock)))"
  using release_zero_timeout_tears_down
          [of cfg_no_idle ex_sock w_one_pool ex_pool None None None False]
  by (simp add: ex_sock_facts cfg_no_idle_def)
     (simp add: ex_sock_def w_one_pool_def ex_pool_def)

text \<open>
  C4 as stated fails in two places. For an acquired socket whose pool has left the table,
  with \<open>pool_timeout\<close> 0, with the error flag and without it, the release makes no
  call on the transport and calls no pool. And with the pool in the table the release only
  half-closes the transport: nothing destroys it until the peer's end of stream arrives;
  the peer's reply line and an error from the peer are only logged, and no timer is set.
\<close>

theorem release_zero_timeout_counterexample:
  "pool_timeout cfg_no_idle = 0 \<and> acquired ex_sock
   \<and> pool_of w_no_pools ex_sock = None
   \<and> ops (snd (release_client cfg_no_idle None None None False (w_no_pools, ex_sock)))
       = [SetTimeout 30000]
   \<and> ops (snd (release_client cfg_no_idle None None None True (w_no_pools, ex_sock)))
       = [SetTimeout 30000]
   \<and> pool_calls (fst (release_client cfg_no_idle None None None False (w_no_pools, ex_sock))) = []
   \<and> pool_calls (fst (release_client cfg_no_idle None None None True (w_no_pools, ex_sock))) = []
   \<and> pool_of w_one_pool ex_sock = Some ex_pool
   \<and> ops (snd (release_client cfg_no_idle None None None False (w_one_pool, ex_sock)))
       = [SetTimeout 30000, Write quit_cmd, End]
   \<and> ops (snd (signals [Ev_line ''221 Bye'', Ev_error ''ECONNRESET'']
                 (release_client cfg_no_idle None None None False (w_one_pool, ex_sock))))
       = [SetTimeout 30000, Write quit_cmd, End]
   \<and> Destroy \<notin> set (ops (snd (signals [Ev_line ''221 Bye'', Ev_error ''ECONNRESET'']
                 (release_client cfg_no_idle None None None False (w_one_pool, ex_sock)))))"
proof -
  let ?r = "release_client cfg_no_idle None None None False (w_one_pool, ex_sock)"
  have t0: "pool_timeout cfg_no_idle = 0" by (simp add: cfg_no_idle_def)
  have s: "snd ?r = snd (destroy ex_pool (w_one_pool, ex_sock\<lparr>acquired := False\<rparr>))"
    using release_teardown [OF ex_sock_facts(1) ex_sock_facts(2) ex_sock_facts(4),
            of False cfg_no_idle None None None] t0
    by (simp add: pool_destroy_socket destroy_socket)
  have e: "?r = (fst ?r, snd (destroy ex_pool (w_one_pool, ex_sock\<lparr>acquired := False\<rparr>)))"
    using s by (metis prod.collapse)
  have o: "ops (snd (signals [Ev_line ''221 Bye'', Ev_error ''ECONNRESET''] ?r))
             = [SetTimeout 30000, Write quit_cmd, End]"
    by (subst e) (simp add: signals_def signal_def emit_def destroy_socket Let_def ex_sock_def)
  have a: "ops (snd (release_client cfg_no_idle None None None False (w_no_pools, ex_sock)))
       = [SetTimeout 30000]
   \<and> ops (snd (release_client cfg_no_idle None None None True (w_no_pools, ex_sock)))
       = [SetTimeout 30000]
   \<and> pool_calls (fst (release_client cfg_no_idle None None None False (w_no_pools, ex_sock))) = []
   \<and> pool_calls (fst (release_client cfg_no_idle None None None True (w_no_pools, ex_sock))) = []"
    by (simp add: release_absent ex_sock_facts cfg_no_idle_def)
       (simp add: ex_sock_def w_no_pools_def)
  have b: "ops (snd ?r) = [SetTimeout 30000, Write quit_cmd, End]"
    by (simp add: s destroy_socket) (simp add: ex_sock_def)
  show ?thesis
    by (simp add: a b o t0 ex_sock_facts)
qed

subsection \<open>Release of a socket that is not acquired\<close>


lemma idle_socket_fields [simp]:
  "acquired (idle_socket s) = False" "fromPool (idle_socket s) = True"
  "writable (idle_socket s) = writable s" "pool_name (idle_socket s) = pool_name s"
  "sock_idx (idle_socket s) = sock_idx s" "ops (idle_socket s) = ops s"
  by (simp_all add: idle_socket_def)








subsection \<open>Pooling disabled\<close>

lemma mk_name_not_null: "mk_name port host la tmo \<noteq> ''null''"
  by (simp add: mk_name_def)

lemma registry_ok_no_null:
  assumes "registry_ok w" and "pool_name s = None"
  shows "pool_of w s = None"
proof (cases "notes_pool w")
  case None
  then show ?thesis by (simp add: pool_of_def)
next
  case (Some reg)
  have "reg ''null'' = None"
  proof (rule ccontr)
    assume "reg ''null'' \<noteq> None"
    then obtain p where "reg ''null'' = Some p" by blast
    with assms(1) Some have "made_by_get_pool ''null'' p"
      by (simp add: registry_ok_def)
    then show False
      using mk_name_not_null [of "pport p" "phost p" "plocal_addr p" "idleTimeoutMillis p div 1000"]
      by (simp add: made_by_get_pool_def)
  qed
  with Some assms(2) show ?thesis by (simp add: pool_of_def key_of_def)
qed


lemma create_socket_result:
  "create_socket cfg nm port host la ux cb w =
     (w\<lparr>socket_idx := Suc (socket_idx w), log := log w @ [(LOGDEBUG, ''[outbound] created'')]\<rparr>,
      \<lparr>pool_name = nm, sock_idx = Suc (socket_idx w), acquired = False, fromPool = False,
        writable = True,
        listeners = [(EvConnect, True, H_connect cb), (EvError, True, H_connect_error cb),
                     (EvTimeout, True, H_connect_timeout cb host port)],
        ops = [SetTimeout (connect_timeout cfg * 1000)],
        opts = (if ux then Unix_path host else Tcp port host la)\<rparr>)"
  by (simp add: create_socket_def Let_def sock_connect_def do_op_def once_def logmsg_def)

text \<open>
  C3. With \<open>pool_concurrency_max\<close> 0, \<open>get_client\<close> is the connection factory called
  with a null pool name and the caller's callback: the table and the calls made to the
  pool library are as before, and the socket it makes has no pool name. Releasing a socket
  with no pool name in that mode, in a table that holds only pools made by \<open>get_pool\<close>,
  removes all listeners and destroys the transport, touching no pool.
\<close>

theorem bypass_touches_no_pool:
  assumes "pool_concurrency_max cfg = Some 0" and "registry_ok w" and "pool_name s = None"
  shows "get_client cfg port host la ux w =
           (fst (create_socket cfg None port host la ux Cb_caller w),
            Some (snd (create_socket cfg None port host la ux Cb_caller w)))
       \<and> notes_pool (fst (get_client cfg port host la ux w)) = notes_pool w
       \<and> pool_calls (fst (get_client cfg port host la ux w)) = pool_calls w
       \<and> map_option pool_name (snd (get_client cfg port host la ux w)) = Some None
       \<and> release_client cfg port' host' la' err (w, s) =
           (logmsg LOGDEBUG (release_log s port' host' la') w,
            s\<lparr>fromPool := False, listeners := [], ops := ops s @ [Destroy]\<rparr>)"
proof -
  have b: "bypassed cfg s"
    using assms by (simp add: bypassed_def falsy_str_def)
  have "registry_ok (logmsg LOGDEBUG m w)" for m
    using assms(2) by (simp add: registry_ok_def)
  then have a: "pool_of (logmsg LOGDEBUG m w) (s\<lparr>pool_name := pool_name s\<rparr>) = None" for m
    using registry_ok_no_null assms(3) by simp
  show ?thesis
    using assms(1)
    by (simp add: get_client_def Let_def create_socket_result release_bypassed [OF b]
          sockend_absent [OF a])
qed

theorem bypass_touches_no_pool_witness:
  "pool_concurrency_max cfg_bypass = Some 0 \<and> registry_ok w_one_pool
   \<and> pool_name ex_bypass_sock = None
   \<and> notes_pool (fst (get_client cfg_bypass (Some 587) (Some ''mx'') None False w_one_pool))
       = notes_pool w_one_pool
   \<and> pool_calls (fst (get_client cfg_bypass (Some 587) (Some ''mx'') None False w_one_pool)) = []
   \<and> ops (snd (release_client cfg_bypass None None None False (w_one_pool, ex_bypass_sock)))
       = [SetTimeout 30000, Destroy]"
proof -
  have ok: "registry_ok w_one_pool"
    by (simp add: registry_ok_def w_one_pool_def made_by_get_pool_def ex_pool_def
          ex_name_eq [symmetric])
  have c: "pool_concurrency_max cfg_bypass = Some 0" and n: "pool_name ex_bypass_sock = None"
    by (simp_all add: cfg_bypass_def ex_bypass_sock_def)
  show ?thesis
    using bypass_touches_no_pool [OF c ok n, of "Some 587" "Some ''mx''" None False None None None False]
    by (simp add: ok c n) (simp add: w_one_pool_def ex_bypass_sock_def create_socket_result)
qed

subsection \<open>Connection factory\<close>

text \<open>
  What the first transport event does to a socket fresh from the factory: a timeout or an
  error half-closes the transport and invokes the callback with an error and a null
  socket; a connect removes the error and timeout listeners and hands the socket over.
\<close>

lemma show_int_25: "show_int 25 = ''25''"
  by code_simp

lemma signal_first_failure:
  assumes "ev = Ev_timeout \<or> ev = Ev_error e"
  shows "cb_calls (fst (signal ev (create_socket cfg nm port host la ux cb w))) =
           cb_calls w @ [(cb, Some (if ev = Ev_timeout
                                    then ''Outbound connection timed out to '' @ tmpl_str host @ '':''
                                           @ tmpl_num port
                                    else ''Outbound connection error: '' @ e), None)]
       \<and> ops (snd (signal ev (create_socket cfg nm port host la ux cb w))) =
           [SetTimeout (connect_timeout cfg * 1000), End]"
  using assms
  by (auto simp: signal_def emit_def create_socket_result Let_def payload_def)

lemma signal_connect_success:
  "signal Ev_connect (create_socket cfg nm port host la ux cb w) =
     (invoke cb None (Some (Suc (socket_idx w))) (fst (create_socket cfg nm port host la ux cb w)),
      (snd (create_socket cfg nm port host la ux cb w))\<lparr>listeners := []\<rparr>)"
  by (simp add: signal_def emit_def create_socket_result Let_def removeAllListeners_of_def)

text \<open>
  C7. The three listeners of \<open>_create_socket\<close> are independent: the error and timeout
  listeners do not unregister the others. After a timeout, a later error of the same
  attempt, or a later connect, invokes the callback a second time (and the error
  half-closes the transport again).
\<close>

theorem connect_callback_invoked_twice:
  "cb_calls (fst (signals [Ev_timeout, Ev_error ''ETIMEDOUT'']
       (create_socket cfg_bypass None (Some 25) (Some ''mx'') None False Cb_caller w_empty))) =
     [(Cb_caller, Some ''Outbound connection timed out to mx:25'', None),
      (Cb_caller, Some ''Outbound connection error: ETIMEDOUT'', None)]
   \<and> ops (snd (signals [Ev_timeout, Ev_error ''ETIMEDOUT'']
       (create_socket cfg_bypass None (Some 25) (Some ''mx'') None False Cb_caller w_empty))) =
     [SetTimeout 30000, End, End]
   \<and> cb_calls (fst (signals [Ev_timeout, Ev_connect]
       (create_socket cfg_bypass None (Some 25) (Some ''mx'') None False Cb_caller w_empty))) =
     [(Cb_caller, Some ''Outbound connection timed out to mx:25'', None),
      (Cb_caller, None, Some 1)]"
  by (simp add: signals_def signal_def emit_def create_socket_result Let_def payload_def
        w_empty_def cfg_bypass_def tmpl_num_def tmpl_str_def show_int_25 removeAllListeners_of_def
        do_op_def invoke_def)

subsection \<open>Validation and teardown\<close>












subsection \<open>Defaults of port and host\<close>





























end
